theory Spec2Isabelle
  imports Main
begin

section \<open>The platform the script runs on\<close>

subsection \<open>Paths\<close>

text \<open>
  \<^verbatim>\<open>pathlib.Path(text)\<close> on POSIX keeps the parts of the path: the anchor (\<^verbatim>\<open>/\<close>, or
  \<^verbatim>\<open>//\<close> for exactly two leading slashes) followed by the components between slashes,
  with empty components and \<^verbatim>\<open>.\<close> dropped. \<^verbatim>\<open>..\<close> is kept as a component. A path is
  modelled by this list of parts; the empty list is \<^verbatim>\<open>Path('.')\<close>.
\<close>

type_synonym path = "string list"

fun split_on :: "char \<Rightarrow> string \<Rightarrow> string list" where
  "split_on d [] = [[]]"
| "split_on d (c # cs) =
     (if c = d then [] # split_on d cs
      else (case split_on d cs of
              [] \<Rightarrow> [[c]]
            | w # ws \<Rightarrow> (c # w) # ws))"

definition anchor :: "string \<Rightarrow> path" where
  "anchor t =
     (if take 2 t = ''//'' \<and> take 3 t \<noteq> ''///'' then [''//'']
      else if take 1 t = ''/'' then [''/'']
      else [])"

definition Path :: "string \<Rightarrow> path" where
  "Path t = anchor t @ filter (\<lambda>w. w \<noteq> [] \<and> w \<noteq> ''.'') (split_on CHR ''/'' t)"

text \<open>\<^verbatim>\<open>Path.parent\<close>: the anchor and \<^verbatim>\<open>Path('.')\<close> are their own parents.\<close>

definition parent :: "path \<Rightarrow> path" where
  "parent p = (if p = [''/''] \<or> p = [''//''] then p else butlast p)"

subsection \<open>The file system\<close>

text \<open>
  A file system is an association list from paths to nodes (the first entry of a path
  counts). A regular file carries its text, a directory whether the process may create
  entries in it. Paths are compared part by part: symbolic links and \<^verbatim>\<open>..\<close> are not
  resolved, and the relative paths hang under \<^verbatim>\<open>Path('.')\<close>, the absolute ones under
  the anchor.
\<close>

datatype node = File string | Dir bool

type_synonym filesystem = "(path \<times> node) list"

definition path_exists :: "filesystem \<Rightarrow> path \<Rightarrow> bool" where
  "path_exists f p = (map_of f p \<noteq> None)"

definition is_dir :: "filesystem \<Rightarrow> path \<Rightarrow> bool" where
  "is_dir f p = (case map_of f p of Some (Dir w) \<Rightarrow> True | _ \<Rightarrow> False)"

datatype oserror = FileNotFoundError | NotADirectoryError | FileExistsError | PermissionError

text \<open>
  \<^verbatim>\<open>os.mkdir(p)\<close>: one directory, no parents. An existing target is reported first, then a
  missing parent, a parent that is no directory, and a parent that may not be written.
\<close>

definition os_mkdir :: "filesystem \<Rightarrow> path \<Rightarrow> oserror + filesystem" where
  "os_mkdir f p =
     (if map_of f p \<noteq> None then Inl FileExistsError
      else (case map_of f (parent p) of
              None \<Rightarrow> Inl FileNotFoundError
            | Some (File t) \<Rightarrow> Inl NotADirectoryError
            | Some (Dir w) \<Rightarrow> if w then Inr ((p, Dir True) # f) else Inl PermissionError))"

text \<open>
  \<^verbatim>\<open>Path.mkdir(parents=False, exist_ok=True)\<close> and \<^verbatim>\<open>Path.mkdir(parents=True, exist_ok=True)\<close>
  of pathlib:
  \<^verbatim>\<open>
    try:
        os.mkdir(self, mode)
    except FileNotFoundError:
        if not parents or self.parent == self:
            raise
        self.parent.mkdir(parents=True, exist_ok=True)
        self.mkdir(mode, parents=False, exist_ok=exist_ok)
    except OSError:
        if not exist_ok or not self.is_dir():
            raise
  \<close>
  The result is the error raised, if any, and the file system as it is left: parents
  created before a failure stay.
\<close>

definition mkdir_single :: "filesystem \<Rightarrow> path \<Rightarrow> oserror option \<times> filesystem" where
  "mkdir_single f p =
     (case os_mkdir f p of
        Inr f' \<Rightarrow> (None, f')
      | Inl FileNotFoundError \<Rightarrow> (Some FileNotFoundError, f)
      | Inl e \<Rightarrow> if is_dir f p then (None, f) else (Some e, f))"

function mkdir :: "filesystem \<Rightarrow> path \<Rightarrow> oserror option \<times> filesystem" where
  "mkdir f p =
     (case os_mkdir f p of
        Inr f' \<Rightarrow> (None, f')
      | Inl e \<Rightarrow>
          if e = FileNotFoundError then
            (if parent p = p then (Some FileNotFoundError, f)
             else (case mkdir f (parent p) of
                     (Some e', f') \<Rightarrow> (Some e', f')
                   | (None, f') \<Rightarrow> mkdir_single f' p))
          else if is_dir f p then (None, f) else (Some e, f))"
  by pat_completeness auto
termination
proof (relation "measure (\<lambda>(f, p). length p)")
  fix f :: filesystem and p :: path
  assume up: "parent p \<noteq> p"
  then have "p \<noteq> []"
    by (auto simp: parent_def)
  then have "length (butlast p) < length p"
    by simp
  moreover from up have "parent p = butlast p"
    by (auto simp: parent_def split: if_splits)
  ultimately show "((f, parent p), (f, p)) \<in> measure (\<lambda>(f, p). length p)"
    by simp
qed simp

declare mkdir.simps [simp del]

subsection \<open>Logging\<close>

text \<open>
  The module's logger writes each enabled record through one stream handler, with the
  format \<^verbatim>\<open>%(message)s\<close>, to the standard error stream. A record is enabled when its level
  is at least the logger's level.
\<close>

datatype level = DEBUG | INFO | WARNING | ERROR

fun level_no :: "level \<Rightarrow> int" where
  "level_no DEBUG = 10"
| "level_no INFO = 20"
| "level_no WARNING = 30"
| "level_no ERROR = 40"

fun getLevelName :: "level \<Rightarrow> string" where
  "getLevelName DEBUG = ''DEBUG''"
| "getLevelName INFO = ''INFO''"
| "getLevelName WARNING = ''WARNING''"
| "getLevelName ERROR = ''ERROR''"

section \<open>The script\<close>

text \<open>
  The state of a run: the file system, the lines written to standard error, the level of
  the module's logger, and the attributes of the \<^verbatim>\<open>SDCardWriter\<close> object. An instance
  attribute that \<^verbatim>\<open>argparser\<close> has not assigned yet is \<open>None\<close>. The class attribute
  \<^verbatim>\<open>config\<close> is never assigned (the call of \<^verbatim>\<open>_load_config\<close> is commented out) and is left
  out.
\<close>

record state =
  fs :: filesystem
  stderr :: "string list"
  log_level :: level
  recode :: bool
  overwrite :: "bool option"
  ffmpeg_bin :: "string option option"
  ffmpeg_options :: "string option"
  jobs_max :: "int option"
  files_to_encode :: "(string \<times> string) list option"

text \<open>The namespace \<^verbatim>\<open>parser.parse_args()\<close> returns, one field per argument defined.\<close>

record namespace =
  arg_overwrite :: bool
  arg_parallel_jobs :: int
  arg_mapfile :: string
  arg_output_dir :: string
  arg_recode :: bool
  arg_verbose :: int
  arg_ffmpeg :: "string option"
  arg_ffmpeg_options :: string

text \<open>
  What \<^verbatim>\<open>parse_args\<close> does with the command line: it returns a namespace, raises
  \<^verbatim>\<open>SystemExit\<close> itself (status 0 after \<^verbatim>\<open>--help\<close>, 2 after a usage error), or raises another
  exception. The command line also fixes the two texts the debug records print:
  \<^verbatim>\<open>str(sys.argv[1:])\<close> and \<^verbatim>\<open>pprint.pformat(args)\<close>.
\<close>

datatype parse_result = Parsed namespace | ArgExit int | ArgError string

record cmdline =
  parse_args :: parse_result
  argv_repr :: string
  args_pformat :: string

datatype exn = SystemExit int | OSError oserror

definition log_msg :: "level \<Rightarrow> string \<Rightarrow> state \<Rightarrow> state" where
  "log_msg lvl msg s =
     (if level_no (log_level s) \<le> level_no lvl then s\<lparr>stderr := stderr s @ [msg]\<rparr> else s)"

text \<open>
  \<^verbatim>\<open>_load_mapfile\<close>:
  \<^verbatim>\<open>
    mapfile = pathlib.Path(filename)
    if not mapfile.exists():
        log.error("Map file {} does not exist".format(filename))
        sys.exit(1)
    return []
  \<close>
\<close>

definition load_mapfile :: "string \<Rightarrow> state \<Rightarrow> (exn + (string \<times> string) list) \<times> state" where
  "load_mapfile filename s =
     (let mapfile = Path filename in
      if \<not> path_exists (fs s) mapfile then
        (Inl (SystemExit 1),
         log_msg ERROR (''Map file '' @ filename @ '' does not exist'') s)
      else (Inr [], s))"

text \<open>The chain on \<^verbatim>\<open>args.verbose\<close> that sets the logger's level.\<close>

definition set_verbosity :: "int \<Rightarrow> state \<Rightarrow> state" where
  "set_verbosity v s =
     (if v = 0 then s\<lparr>log_level := ERROR\<rparr>
      else if v = 1 then s\<lparr>log_level := WARNING\<rparr>
      else if v = 2 then s\<lparr>log_level := INFO\<rparr>
      else if v = 3 then s\<lparr>log_level := DEBUG\<rparr>
      else s\<lparr>log_level := DEBUG\<rparr>)"

text \<open>
  \<^verbatim>\<open>argparser\<close>, from \<^verbatim>\<open>parser.parse_args()\<close> on. An exception of \<^verbatim>\<open>parse_args\<close> is caught,
  printed to standard error and turned into \<^verbatim>\<open>sys.exit(0)\<close>; a \<^verbatim>\<open>SystemExit\<close> of
  \<^verbatim>\<open>parse_args\<close> is no \<^verbatim>\<open>Exception\<close> and passes through. The call \<^verbatim>\<open>sys.exit(0)\<close> after
  "No files to encode." is commented out in the source.
\<close>

definition argparser :: "cmdline \<Rightarrow> state \<Rightarrow> (exn + unit) \<times> state" where
  "argparser cl s =
     (case parse_args cl of
        ArgExit n \<Rightarrow> (Inl (SystemExit n), s)
      | ArgError e \<Rightarrow>
          (Inl (SystemExit 0),
           s\<lparr>stderr := stderr s @ [''Error while parsing arguments: '' @ e]\<rparr>)
      | Parsed args \<Rightarrow>
          (let s1 = set_verbosity (arg_verbose args) s;
               s2 = log_msg INFO (''Log level: '' @ getLevelName (log_level s1)) s1;
               s3 = log_msg DEBUG
                      (''Arguments received from command line: '' @ argv_repr cl) s2;
               s4 = log_msg DEBUG (args_pformat cl) s3;
               s5 = s4\<lparr>recode := arg_recode args,
                        overwrite := Some (arg_overwrite args),
                        ffmpeg_bin := Some (arg_ffmpeg args),
                        ffmpeg_options := Some (arg_ffmpeg_options args),
                        jobs_max := Some (arg_parallel_jobs args)\<rparr>
           in (case load_mapfile (arg_mapfile args) s5 of
                 (Inl e, s6) \<Rightarrow> (Inl e, s6)
               | (Inr files, s6) \<Rightarrow>
                   (let s7 = s6\<lparr>files_to_encode := Some files\<rparr>;
                        s8 = (if length files = 0
                              then log_msg ERROR ''No files to encode.'' s7 else s7);
                        s9 = log_msg DEBUG
                               (''Creating output dir '' @ arg_output_dir args
                                  @ '' if needed'') s8
                    in (case mkdir (fs s9) (Path (arg_output_dir args)) of
                          (Some e, f') \<Rightarrow> (Inl (OSError e), s9\<lparr>fs := f'\<rparr>)
                        | (None, f') \<Rightarrow> (Inr (), s9\<lparr>fs := f'\<rparr>))))))"

text \<open>\<^verbatim>\<open>main\<close>: its body is \<^verbatim>\<open>pass\<close>.\<close>

definition main :: "state \<Rightarrow> (exn + unit) \<times> state" where
  "main s = (Inr (), s)"

text \<open>
  \<^verbatim>\<open>__init__\<close>: the logger, which has no handler when the first object is made, gets
  its stream handler and the level \<^verbatim>\<open>ERROR\<close>; when the module is the program
  (\<^verbatim>\<open>__name__ == "__main__"\<close>), \<^verbatim>\<open>argparser\<close> and then \<^verbatim>\<open>main\<close> run.
\<close>

definition init :: "bool \<Rightarrow> cmdline \<Rightarrow> state \<Rightarrow> (exn + unit) \<times> state" where
  "init is_main cl s =
     (let s0 = s\<lparr>log_level := ERROR\<rparr> in
      if is_main then
        (case argparser cl s0 of
           (Inl e, s1) \<Rightarrow> (Inl e, s1)
         | (Inr u, s1) \<Rightarrow> main s1)
      else (Inr (), s0))"

text \<open>
  The process: the module's top level sets the logger up, then \<^verbatim>\<open>SDCardWriter()\<close> runs.
  The exit status is 0 after a normal end, the code of a \<^verbatim>\<open>SystemExit\<close> (its low eight
  bits), and 1 after any other uncaught exception (the traceback the interpreter then
  prints is not recorded in \<open>stderr\<close>).
\<close>

definition initial_state :: "filesystem \<Rightarrow> state" where
  "initial_state f =
     \<lparr>fs = f, stderr = [], log_level = ERROR, recode = False, overwrite = None,
      ffmpeg_bin = None, ffmpeg_options = None, jobs_max = None, files_to_encode = None\<rparr>"

definition exit_status :: "exn + unit \<Rightarrow> int" where
  "exit_status r =
     (case r of
        Inr u \<Rightarrow> 0
      | Inl (SystemExit n) \<Rightarrow> n mod 256
      | Inl (OSError e) \<Rightarrow> 1)"

definition script :: "cmdline \<Rightarrow> filesystem \<Rightarrow> int \<times> state" where
  "script cl f = (case init True cl (initial_state f) of (r, s) \<Rightarrow> (exit_status r, s))"

section \<open>The map format as the specification words it\<close>

text \<open>
  The specification's Map Parser, for comparison with \<open>load_mapfile\<close>: the text is cut
  into lines; an empty line and a line starting with \<^verbatim>\<open>#\<close> are skipped; every other line
  is split on \<^verbatim>\<open>;\<close> and must have exactly two fields, the output name and the input
  path. The numbers (from 1) of the lines with another field count are collected over
  the whole text, and the parse fails with them if there is any.
\<close>

definition spec_lines :: "string \<Rightarrow> string list" where
  "spec_lines text = split_on (CHR 0x0A) text"

definition spec_skipped :: "string \<Rightarrow> bool" where
  "spec_skipped l = (l = [] \<or> take 1 l = ''#'')"

fun spec_scan :: "nat \<Rightarrow> string list \<Rightarrow> nat list \<times> (string \<times> string) list" where
  "spec_scan n [] = ([], [])"
| "spec_scan n (l # ls) =
     (case spec_scan (Suc n) ls of
        (bad, es) \<Rightarrow>
          if spec_skipped l then (bad, es)
          else (case split_on CHR '';'' l of
                  [a, b] \<Rightarrow> (bad, (a, b) # es)
                | _ \<Rightarrow> (n # bad, es)))"

definition spec_map_parser :: "string \<Rightarrow> nat list + (string \<times> string) list" where
  "spec_map_parser text =
     (case spec_scan 1 (spec_lines text) of
        ([], es) \<Rightarrow> Inr es
      | (n # bad, es) \<Rightarrow> Inl (n # bad))"

text \<open>
  The specification's count of Jobs for a list of entries: one for an entry whose input
  path is a regular file, and for a directory one per regular file in it whose name the
  allow-list \<open>matching\<close> accepts.
\<close>

definition spec_dir_files :: "(string \<Rightarrow> bool) \<Rightarrow> filesystem \<Rightarrow> path \<Rightarrow> path list" where
  "spec_dir_files matching f d =
     filter (\<lambda>q. q \<noteq> d \<and> parent q = d \<and>
                 (case map_of f q of Some (File t) \<Rightarrow> matching (last q) | _ \<Rightarrow> False))
       (remdups (map fst f))"

definition spec_job_count ::
    "(string \<Rightarrow> bool) \<Rightarrow> filesystem \<Rightarrow> (string \<times> string) list \<Rightarrow> nat" where
  "spec_job_count matching f es =
     sum_list (map (\<lambda>(out, inp).
                 case map_of f (Path inp) of
                   None \<Rightarrow> 0
                 | Some (File t) \<Rightarrow> 1
                 | Some (Dir w) \<Rightarrow> length (spec_dir_files matching f (Path inp))) es)"

section \<open>A concrete run\<close>

text \<open>
  The scenario of the specification: the map file \<^verbatim>\<open>map.csv\<close> with the lines
  \<^verbatim>\<open>track1.mp3;src/a.wav\<close> and \<^verbatim>\<open>track2.mp3;src/dir/\<close>, where \<^verbatim>\<open>src/dir\<close> holds \<^verbatim>\<open>b.wav\<close> and
  \<^verbatim>\<open>c.wav\<close>, run with the default arguments.
\<close>

definition example_args :: namespace where
  "example_args =
     \<lparr>arg_overwrite = False, arg_parallel_jobs = 4, arg_mapfile = ''map.csv'',
      arg_output_dir = ''./out'', arg_recode = False, arg_verbose = 0, arg_ffmpeg = None,
      arg_ffmpeg_options = ''-vsync 0 -codec:a libmp3lame -b:a 192K -vn -sn -dn''\<rparr>"

definition example_cmdline :: cmdline where
  "example_cmdline = \<lparr>parse_args = Parsed example_args, argv_repr = ''[]'', args_pformat = ''Namespace()''\<rparr>"

definition example_map :: string where
  "example_map = ''track1.mp3;src/a.wav'' @ [CHR 0x0A] @ ''track2.mp3;src/dir/'' @ [CHR 0x0A]"

definition example_fs :: filesystem where
  "example_fs =
     [([], Dir True), ([''map.csv''], File example_map), ([''src''], Dir True),
      ([''src'', ''a.wav''], File ''RIFF''), ([''src'', ''dir''], Dir True),
      ([''src'', ''dir'', ''b.wav''], File ''RIFF''), ([''src'', ''dir'', ''c.wav''], File ''RIFF'')]"

text \<open>
  Variations of the scenario: no map file at all; a map file with two lines of another
  field count before a line of two fields; a map file whose two entries name the same
  output; the output directory taken by a regular file; an empty map file next to an
  output directory that exists but cannot be written.
\<close>

definition missing_fs :: filesystem where
  "missing_fs = [([], Dir True)]"

definition malformed_map :: string where
  "malformed_map = ''one-field'' @ [CHR 0x0A] @ ''a;b;c'' @ [CHR 0x0A] @ ''x;y''"

definition malformed_fs :: filesystem where
  "malformed_fs = [([], Dir True), ([''map.csv''], File malformed_map)]"

definition colliding_map :: string where
  "colliding_map = ''x.mp3;src/a.wav'' @ [CHR 0x0A] @ ''x.mp3;src/dir/b.wav''"

definition colliding_fs :: filesystem where
  "colliding_fs = ([''map.csv''], File colliding_map) # example_fs"

definition blocked_fs :: filesystem where
  "blocked_fs = ([''out''], File ''not a directory'') # example_fs"


section \<open>Properties of the platform and of the logger\<close>

lemma level_no_le: "level_no l \<le> 40"
  by (cases l) simp_all

lemma log_error: "log_msg ERROR m s = s\<lparr>stderr := stderr s @ [m]\<rparr>"
  by (simp add: log_msg_def level_no_le)

lemma log_msg_frame [simp]:
  "fs (log_msg l m s) = fs s"
  "files_to_encode (log_msg l m s) = files_to_encode s"
  by (simp_all add: log_msg_def)

lemma log_msg_keeps: "x \<in> set (stderr s) \<Longrightarrow> x \<in> set (stderr (log_msg l m s))"
  by (simp add: log_msg_def)

lemma set_verbosity_frame [simp]:
  "fs (set_verbosity v s) = fs s"
  "files_to_encode (set_verbosity v s) = files_to_encode s"
  by (simp_all add: set_verbosity_def)

lemma argparser_missing:
  assumes "parse_args cl = Parsed args" and "\<not> path_exists (fs s) (Path (arg_mapfile args))"
  shows "fst (argparser cl s) = Inl (SystemExit 1)"
    and "fs (snd (argparser cl s)) = fs s"
    and "files_to_encode (snd (argparser cl s)) = files_to_encode s"
  using assms by (simp_all add: argparser_def load_mapfile_def Let_def)

lemma argparser_present:
  assumes "parse_args cl = Parsed args" and "path_exists (fs s) (Path (arg_mapfile args))"
  shows "fst (argparser cl s) =
           (case fst (mkdir (fs s) (Path (arg_output_dir args))) of
              None \<Rightarrow> Inr () | Some e \<Rightarrow> Inl (OSError e))"
    and "fs (snd (argparser cl s)) = snd (mkdir (fs s) (Path (arg_output_dir args)))"
    and "files_to_encode (snd (argparser cl s)) = Some []"
    and "''No files to encode.'' \<in> set (stderr (snd (argparser cl s)))"
  using assms
  by (auto simp: argparser_def load_mapfile_def Let_def log_error log_msg_keeps
           split: prod.splits option.splits)



lemma os_mkdir_is_dir: "os_mkdir f p = Inr f' \<Longrightarrow> is_dir f' p"
  by (auto simp: os_mkdir_def is_dir_def split: if_splits option.splits node.splits)

lemma mkdir_single_is_dir: "mkdir_single f p = (None, f') \<Longrightarrow> is_dir f' p"
  by (auto simp: mkdir_single_def os_mkdir_is_dir split: sum.splits oserror.splits if_splits)

lemma mkdir_existing_dir: "is_dir f p \<Longrightarrow> mkdir f p = (None, f)"
  by (subst mkdir.simps)
     (auto simp: os_mkdir_def is_dir_def split: option.splits node.splits)

lemma mkdir_is_dir: "mkdir f p = (None, f') \<Longrightarrow> is_dir f' p"
proof (induction f p arbitrary: f' rule: mkdir.induct)
  case (1 f p)
  show ?case
  proof (cases "os_mkdir f p")
    case (Inr g)
    with "1.prems" have "f' = g"
      by (subst (asm) mkdir.simps) simp
    with Inr show ?thesis
      by (simp add: os_mkdir_is_dir)
  next
    case (Inl e)
    show ?thesis
    proof (cases "e = FileNotFoundError")
      case False
      with Inl "1.prems" show ?thesis
        by (subst (asm) mkdir.simps) (auto split: if_splits)
    next
      case True
      with Inl "1.prems" have up: "parent p \<noteq> p"
        by (subst (asm) mkdir.simps) (auto split: if_splits)
      obtain r g where rec: "mkdir f (parent p) = (r, g)"
        by (cases "mkdir f (parent p)")
      with Inl True up "1.prems" have "mkdir_single g p = (None, f')"
        by (subst (asm) mkdir.simps) (auto split: option.splits)
      then show ?thesis
        by (rule mkdir_single_is_dir)
    qed
  qed
qed

section \<open>Properties of the run\<close>

lemma init_main:
  "fst (init True cl s) = fst (argparser cl (s\<lparr>log_level := ERROR\<rparr>))"
  "snd (init True cl s) = snd (argparser cl (s\<lparr>log_level := ERROR\<rparr>))"
  by (auto simp: init_def main_def Let_def split: prod.splits sum.splits)

lemma script_init:
  "fst (script cl f) = exit_status (fst (init True cl (initial_state f)))"
  "snd (script cl f) = snd (init True cl (initial_state f))"
  by (simp_all add: script_def split: prod.splits)

lemma initial_state_frame [simp]:
  "fs (initial_state f) = f"
  "files_to_encode (initial_state f) = None"
  by (simp_all add: initial_state_def)

section \<open>The claims\<close>

subsection \<open>Loading the map file\<close>

text \<open>
  Claim C1. For every mapping source text the Map Parser yields the entries in input
  order: every line that is neither empty nor starts with \<^verbatim>\<open>#\<close> is split on \<^verbatim>\<open>;\<close> into
  the output name and the input path, the other lines are skipped.

  The docstring of \<^verbatim>\<open>_load_mapfile\<close> ("Reads the contents of the map file and returns a
  list of 2-tuples") and the help text of \<^verbatim>\<open>--mapfile\<close> describe this reading, but the
  body returns the empty list for every map file that exists. On the scenario of the
  specification the map names two entries; \<open>load_mapfile\<close> returns none.
\<close>

theorem load_mapfile_yields_no_entry:
  "spec_map_parser example_map
     = Inr [(''track1.mp3'', ''src/a.wav''), (''track2.mp3'', ''src/dir/'')]
   \<and> map_of example_fs (Path ''map.csv'') = Some (File example_map)
   \<and> fst (load_mapfile ''map.csv'' (initial_state example_fs)) = Inr []"
  by code_simp

text \<open>
  Claim C2. When the map file path does not exist, loading the map file fails before any
  line is read, and the program ends with a non-zero exit status and without any Job.

  The failure of the source is the logged line "Map file ... does not exist" followed by
  \<^verbatim>\<open>sys.exit(1)\<close>: \<open>load_mapfile\<close> returns \<open>SystemExit 1\<close> and changes nothing but the
  standard error stream; the run of a parsed command line ends with status 1, with
  \<^verbatim>\<open>files_to_encode\<close> never assigned and the file system as it was.
\<close>

theorem missing_mapfile_exits_1:
  assumes "parse_args cl = Parsed args"
    and "\<not> path_exists f (Path (arg_mapfile args))"
    and "fs s = f"
  shows "load_mapfile (arg_mapfile args) s =
           (Inl (SystemExit 1),
            s\<lparr>stderr := stderr s @ [''Map file '' @ arg_mapfile args @ '' does not exist'']\<rparr>)
         \<and> fst (script cl f) = 1
         \<and> files_to_encode (snd (script cl f)) = None
         \<and> fs (snd (script cl f)) = f"
proof -
  let ?s = "(initial_state f)\<lparr>log_level := ERROR\<rparr>"
  have miss: "\<not> path_exists (fs ?s) (Path (arg_mapfile args))"
    using assms(2) by simp
  have "load_mapfile (arg_mapfile args) s =
           (Inl (SystemExit 1),
            s\<lparr>stderr := stderr s @ [''Map file '' @ arg_mapfile args @ '' does not exist'']\<rparr>)"
    using assms(2,3) by (simp add: load_mapfile_def log_error)
  moreover have "fst (script cl f) = 1"
    using argparser_missing(1) [OF assms(1) miss]
    by (simp add: script_init init_main exit_status_def)
  moreover have "files_to_encode (snd (script cl f)) = None"
    using argparser_missing(3) [OF assms(1) miss]
    by (simp add: script_init init_main)
  moreover have "fs (snd (script cl f)) = f"
    using argparser_missing(2) [OF assms(1) miss]
    by (simp add: script_init init_main)
  ultimately show ?thesis
    by simp
qed

theorem missing_mapfile_exits_1_witness:
  "fst (script example_cmdline missing_fs) = 1
   \<and> files_to_encode (snd (script example_cmdline missing_fs)) = None
   \<and> fs (snd (script example_cmdline missing_fs)) = missing_fs
   \<and> stderr (snd (load_mapfile ''map.csv'' (initial_state missing_fs)))
       = [''Map file map.csv does not exist'']"
proof -
  have a: "parse_args example_cmdline = Parsed example_args"
    by (simp add: example_cmdline_def)
  have b: "\<not> path_exists missing_fs (Path (arg_mapfile example_args))"
    by (simp add: path_exists_def missing_fs_def example_args_def Path_def anchor_def)
  have c: "fs (initial_state missing_fs) = missing_fs"
    by simp
  show ?thesis
    using missing_mapfile_exits_1 [OF a b c]
    by (simp add: example_args_def initial_state_def)
qed

subsection \<open>The exit status\<close>




subsection \<open>Failures and side effects\<close>

text \<open>
  Claim C4. When parsing or planning fails, the error surfaces before any side effect:
  no file is written and no directory is created before the program stops.

  For a map file that does not exist the script does so: \<^verbatim>\<open>sys.exit(1)\<close> comes before
  the creation of the output directory. A map file that exists is never read, against
  the docstring of \<^verbatim>\<open>_load_mapfile\<close>, so no error of its text can surface: with a map
  file whose first two lines have one and three fields, the run raises nothing,
  creates the output directory and ends with status 0.
\<close>

theorem malformed_map_creates_output_dir:
  "spec_map_parser malformed_map = Inl [1, 2]
   \<and> map_of malformed_fs (Path ''map.csv'') = Some (File malformed_map)
   \<and> \<not> path_exists malformed_fs (Path ''./out'')
   \<and> fst (script example_cmdline malformed_fs) = 0
   \<and> fs (snd (script example_cmdline malformed_fs)) = ([''out''], Dir True) # malformed_fs"
  by code_simp

subsection \<open>Jobs\<close>

text \<open>
  Claim C5. For every valid map file the number of Jobs is the sum, over the entries, of
  one for a single file and of one per matching regular file for a directory.

  The help text of \<^verbatim>\<open>--mapfile\<close> describes the expansion of a directory entry into its
  files, and the docstring of \<^verbatim>\<open>_load_mapfile\<close> a list with one tuple per media file. On
  the scenario of the specification the count is 3; the run assigns the empty list to
  \<^verbatim>\<open>files_to_encode\<close> and ends with status 0.
\<close>

theorem script_counts_no_job:
  "spec_job_count (\<lambda>name. True) example_fs
       [(''track1.mp3'', ''src/a.wav''), (''track2.mp3'', ''src/dir/'')] = 3
   \<and> files_to_encode (snd (script example_cmdline example_fs)) = Some []
   \<and> fst (script example_cmdline example_fs) = 0"
  by code_simp

text \<open>
  Claim C6. The destination paths of a job queue are pairwise distinct, and an input
  whose Jobs collide on a destination fails planning with a duplicate-destination error
  before any Job runs and with no write to the file system.

  The entries of the map file never reach the script, since \<^verbatim>\<open>_load_mapfile\<close> returns the
  empty list without reading the file, against its docstring. A map file whose two
  entries name the same output, each with an existing regular file as input, is loaded
  without an error and without a tuple; the run ends with status 0 and has created the
  output directory.
\<close>

theorem colliding_entries_accepted:
  "spec_map_parser colliding_map
     = Inr [(''x.mp3'', ''src/a.wav''), (''x.mp3'', ''src/dir/b.wav'')]
   \<and> map_of colliding_fs (Path ''src/a.wav'') = Some (File ''RIFF'')
   \<and> map_of colliding_fs (Path ''src/dir/b.wav'') = Some (File ''RIFF'')
   \<and> fst (load_mapfile ''map.csv'' (initial_state colliding_fs)) = Inr []
   \<and> fst (script example_cmdline colliding_fs) = 0
   \<and> fs (snd (script example_cmdline colliding_fs)) = ([''out''], Dir True) # colliding_fs"
  by code_simp

subsection \<open>Malformed lines\<close>

text \<open>
  Claim C7. A map file with a line whose field count is not two fails with an error that
  names the line, after every line has been scanned and with all such lines reported.

  \<^verbatim>\<open>_load_mapfile\<close> scans no line, against its docstring ("Reads the contents of the map
  file and returns a list of 2-tuples"). A map file whose first line has one field and
  whose second has three, followed by the line \<^verbatim>\<open>x;y\<close>, is loaded without an error,
  without a tuple for the third line and without a change of the state.
\<close>

theorem malformed_lines_accepted:
  "spec_map_parser malformed_map = Inl [1, 2]
   \<and> load_mapfile ''map.csv'' (initial_state malformed_fs)
       = (Inr [], initial_state malformed_fs)"
  by code_simp

subsection \<open>What the script does\<close>

text \<open>
  Claim C8. For every map file path that exists, \<^verbatim>\<open>_load_mapfile\<close> returns the empty list
  whatever the file holds: no line is read or parsed and no tuple is produced. The state
  after the call is the state before it.
\<close>

theorem load_mapfile_existing:
  "path_exists (fs s) (Path filename) \<Longrightarrow> load_mapfile filename s = (Inr [], s)"
  by (simp add: load_mapfile_def)

theorem load_mapfile_existing_witness:
  "path_exists (fs (initial_state example_fs)) (Path ''map.csv'') \<and>
   load_mapfile ''map.csv'' (initial_state example_fs) = (Inr [], initial_state example_fs)"
proof -
  have h: "path_exists (fs (initial_state example_fs)) (Path ''map.csv'')"
    by (simp add: path_exists_def example_fs_def Path_def anchor_def)
  show ?thesis
    using h load_mapfile_existing [OF h] by simp
qed

text \<open>
  Claim C9. When the loaded map yields no file to encode, initialization logs an error
  but does not terminate: the output directory is still created (with parents, an
  existing directory being no error) and the program completes with exit status 0.

  The creation can fail. With the path of the output directory taken by a regular file
  the map still yields no file, and the run ends with status 1 and without the
  directory.
\<close>

theorem no_files_exit_1:
  "files_to_encode (snd (script example_cmdline blocked_fs)) = Some []
   \<and> fst (script example_cmdline blocked_fs) = 1
   \<and> \<not> is_dir (fs (snd (script example_cmdline blocked_fs))) (Path ''./out'')"
  by code_simp

text \<open>
  Claim C9, as the script has it. Whenever the map file is loaded, it yields no file,
  "No files to encode." is logged and the run goes on to create the output directory
  with its parents: the file system it leaves is the one \<open>mkdir\<close> leaves. When that
  creation raises no error the run ends with status 0 and the output directory is a
  directory; when the output directory is a directory already, the run ends with
  status 0 and the file system is unchanged.
\<close>

theorem no_files_still_mkdir:
  assumes "parse_args cl = Parsed args"
    and "path_exists f (Path (arg_mapfile args))"
  shows "files_to_encode (snd (script cl f)) = Some []
         \<and> ''No files to encode.'' \<in> set (stderr (snd (script cl f)))
         \<and> fs (snd (script cl f)) = snd (mkdir f (Path (arg_output_dir args)))
         \<and> (fst (mkdir f (Path (arg_output_dir args))) = None \<longrightarrow>
              fst (script cl f) = 0 \<and> is_dir (fs (snd (script cl f))) (Path (arg_output_dir args)))
         \<and> (is_dir f (Path (arg_output_dir args)) \<longrightarrow>
              fst (script cl f) = 0 \<and> fs (snd (script cl f)) = f)"
proof -
  let ?s = "(initial_state f)\<lparr>log_level := ERROR\<rparr>"
  let ?out = "Path (arg_output_dir args)"
  have ex: "path_exists (fs ?s) (Path (arg_mapfile args))"
    using assms(2) by simp
  note ap = argparser_present [OF assms(1) ex]
  have files: "files_to_encode (snd (script cl f)) = Some []"
    using ap(3) by (simp add: script_init init_main)
  have msg: "''No files to encode.'' \<in> set (stderr (snd (script cl f)))"
    using ap(4) by (simp add: script_init init_main)
  have fsys: "fs (snd (script cl f)) = snd (mkdir f ?out)"
    using ap(2) by (simp add: script_init init_main)
  have ok: "fst (script cl f) = 0 \<and> is_dir (fs (snd (script cl f))) ?out"
    if "fst (mkdir f ?out) = None"
  proof -
    from that have "mkdir f ?out = (None, snd (mkdir f ?out))"
      by (simp add: prod_eq_iff)
    then have "is_dir (snd (mkdir f ?out)) ?out"
      by (rule mkdir_is_dir)
    moreover from that ap(1) have "fst (script cl f) = 0"
      by (simp add: script_init init_main exit_status_def)
    ultimately show ?thesis
      using fsys by simp
  qed
  have there: "fst (script cl f) = 0 \<and> fs (snd (script cl f)) = f"
    if "is_dir f ?out"
  proof -
    from that have m: "mkdir f ?out = (None, f)"
      by (rule mkdir_existing_dir)
    with ap(1) have "fst (script cl f) = 0"
      by (simp add: script_init init_main exit_status_def)
    with m fsys show ?thesis
      by simp
  qed
  from files msg fsys ok there show ?thesis
    by blast
qed

theorem no_files_still_mkdir_witness:
  "files_to_encode (snd (script example_cmdline example_fs)) = Some []
   \<and> ''No files to encode.'' \<in> set (stderr (snd (script example_cmdline example_fs)))
   \<and> fst (script example_cmdline example_fs) = 0
   \<and> is_dir (fs (snd (script example_cmdline example_fs))) (Path ''./out'')
   \<and> fst (script example_cmdline (([''out''], Dir True) # example_fs)) = 0
   \<and> fs (snd (script example_cmdline (([''out''], Dir True) # example_fs)))
       = ([''out''], Dir True) # example_fs"
proof -
  have a: "parse_args example_cmdline = Parsed example_args"
    by (simp add: example_cmdline_def)
  have out: "arg_output_dir example_args = ''./out''"
    by (simp add: example_args_def)
  have b: "path_exists example_fs (Path (arg_mapfile example_args))"
    by code_simp
  have b': "path_exists (([''out''], Dir True) # example_fs) (Path (arg_mapfile example_args))"
    by code_simp
  have c: "fst (mkdir example_fs (Path ''./out'')) = None"
    by code_simp
  have d: "is_dir (([''out''], Dir True) # example_fs) (Path ''./out'')"
    by code_simp
  note fresh = no_files_still_mkdir [OF a b, unfolded out]
  note there = no_files_still_mkdir [OF a b', unfolded out]
  from fresh there c d show ?thesis
    by blast
qed

text \<open>
  Claim C10. For every configuration \<^verbatim>\<open>main\<close> performs no operation and leaves all state
  unchanged: it returns normally, and the file system, the output written and the
  attributes of the object are those it was called with.
\<close>

theorem main_does_nothing: "main s = (Inr (), s)"
  by (simp add: main_def)

end
